theory Spec2Isabelle
  imports Main "HOL-Library.AList"
begin

section \<open>Python strings and bytes\<close>

text \<open>
  A Python \<open>str\<close> is a sequence of Unicode code points, and \<open>len\<close> counts code points.
  It is modelled as a list of code points (natural numbers below \<open>0x110000\<close>); a
  \<open>bytes\<close> object is a list of octets. ASCII literals of the source are written
  through \<open>ascii\<close>.
\<close>

type_synonym pystr = "nat list"
type_synonym pybytes = "nat list"

definition ascii :: "string \<Rightarrow> pystr" where
  "ascii s = map of_char s"

text \<open>The exceptions that the modelled code can raise.\<close>

datatype exn =
    AlreadyConnected
  | NotBroadcasting
  | InvalidPacketNoStarter
  | InvalidPacketTooShort
  | UnicodeEncodeError
  | UnicodeDecodeError
  | AttributeError
  | ConnectionClosed
  | OtherException nat

text \<open>\<open>s.startswith(p)\<close> and the slice \<open>s[i:j]\<close> for \<open>0 \<le> i \<le> j\<close>.\<close>

definition startswith :: "pystr \<Rightarrow> pystr \<Rightarrow> bool" where
  "startswith s p = (take (length p) s = p)"

definition slice :: "nat \<Rightarrow> nat \<Rightarrow> pystr \<Rightarrow> pystr" where
  "slice i j s = take (j - i) (drop i s)"

text \<open>
  \<open>s.split(sep)\<close> for a separator that is not empty (the only separator of the source is
  the constant \<open>ChatDelimiter.SEPARATOR\<close>): the pieces between the occurrences of
  \<open>sep\<close>, found from left to right, empty pieces kept.
\<close>

fun split_acc :: "pystr \<Rightarrow> pystr \<Rightarrow> pystr \<Rightarrow> pystr list" where
  "split_acc sep acc [] = [rev acc]"
| "split_acc sep acc (c # cs) =
     (if sep \<noteq> [] \<and> startswith (c # cs) sep
      then rev acc # split_acc sep [] (drop (length sep) (c # cs))
      else split_acc sep (c # acc) cs)"

definition split :: "pystr \<Rightarrow> pystr \<Rightarrow> pystr list" where
  "split s sep = split_acc sep [] s"

text \<open>
  \<open>text.encode('utf-8')\<close>: one to four octets per code point; a surrogate code point
  (\<open>0xD800\<close> to \<open>0xDFFF\<close>) has no encoding and raises \<open>UnicodeEncodeError\<close>.
\<close>

definition encode_cp :: "nat \<Rightarrow> pybytes" where
  "encode_cp c =
     (if c < 0x80 then [c]
      else if c < 0x800 then [0xC0 + c div 0x40, 0x80 + c mod 0x40]
      else if c < 0x10000 then
        [0xE0 + c div 0x1000, 0x80 + c div 0x40 mod 0x40, 0x80 + c mod 0x40]
      else
        [0xF0 + c div 0x40000, 0x80 + c div 0x1000 mod 0x40,
         0x80 + c div 0x40 mod 0x40, 0x80 + c mod 0x40])"

definition surrogate :: "nat \<Rightarrow> bool" where
  "surrogate c = (0xD800 \<le> c \<and> c < 0xE000)"

fun encode_utf8 :: "pystr \<Rightarrow> exn + pybytes" where
  "encode_utf8 [] = Inr []"
| "encode_utf8 (c # cs) =
     (if surrogate c then Inl UnicodeEncodeError
      else case encode_utf8 cs of
             Inl e \<Rightarrow> Inl e
           | Inr bs \<Rightarrow> Inr (encode_cp c @ bs))"

text \<open>
  \<open>data.decode('utf-8')\<close>, the strict decoder: overlong forms, surrogates, code points
  above \<open>0x10FFFF\<close>, stray continuation octets and truncated sequences raise
  \<open>UnicodeDecodeError\<close>.
\<close>

definition cont :: "nat \<Rightarrow> bool" where
  "cont b = (0x80 \<le> b \<and> b < 0xC0)"

fun decode_utf8 :: "pybytes \<Rightarrow> exn + pystr" where
  "decode_utf8 [] = Inr []"
| "decode_utf8 (b0 # bs) =
     (if b0 < 0x80 then
        (case decode_utf8 bs of Inl e \<Rightarrow> Inl e | Inr s \<Rightarrow> Inr (b0 # s))
      else if 0xC2 \<le> b0 \<and> b0 < 0xE0 then
        (case bs of
           b1 # r1 \<Rightarrow>
             if cont b1 then
               (case decode_utf8 r1 of
                  Inl e \<Rightarrow> Inl e
                | Inr s \<Rightarrow> Inr (((b0 - 0xC0) * 0x40 + (b1 - 0x80)) # s))
             else Inl UnicodeDecodeError
         | _ \<Rightarrow> Inl UnicodeDecodeError)
      else if 0xE0 \<le> b0 \<and> b0 < 0xF0 then
        (case bs of
           b1 # b2 # r2 \<Rightarrow>
             (let c = (b0 - 0xE0) * 0x1000 + (b1 - 0x80) * 0x40 + (b2 - 0x80) in
              if cont b1 \<and> cont b2 \<and> 0x800 \<le> c \<and> \<not> surrogate c then
                (case decode_utf8 r2 of Inl e \<Rightarrow> Inl e | Inr s \<Rightarrow> Inr (c # s))
              else Inl UnicodeDecodeError)
         | _ \<Rightarrow> Inl UnicodeDecodeError)
      else if 0xF0 \<le> b0 \<and> b0 < 0xF5 then
        (case bs of
           b1 # b2 # b3 # r3 \<Rightarrow>
             (let c = (b0 - 0xF0) * 0x40000 + (b1 - 0x80) * 0x1000
                        + (b2 - 0x80) * 0x40 + (b3 - 0x80) in
              if cont b1 \<and> cont b2 \<and> cont b3 \<and> 0x10000 \<le> c \<and> c < 0x110000 then
                (case decode_utf8 r3 of Inl e \<Rightarrow> Inl e | Inr s \<Rightarrow> Inr (c # s))
              else Inl UnicodeDecodeError)
         | _ \<Rightarrow> Inl UnicodeDecodeError)
      else Inl UnicodeDecodeError)"

text \<open>
  \<open>str(n)\<close> for an \<open>int\<close>: the decimal digits, most significant first, with a leading
  minus sign for a negative number.
\<close>

definition digit :: "nat \<Rightarrow> nat" where
  "digit d = 48 + d"

fun str_nat :: "nat \<Rightarrow> pystr" where
  "str_nat n = (if n < 10 then [digit n] else str_nat (n div 10) @ [digit (n mod 10)])"

definition str_int :: "int \<Rightarrow> pystr" where
  "str_int i = (if i < 0 then 45 # str_nat (nat (- i)) else str_nat (nat i))"

text \<open>
  \<open>s.zfill(width)\<close>: zeros are added on the left up to \<open>width\<close> characters, after a
  leading sign if there is one; a string that is already long enough is returned as it is.
\<close>

definition zfill :: "pystr \<Rightarrow> nat \<Rightarrow> pystr" where
  "zfill s width =
     (if width \<le> length s then s
      else case s of
             c # cs \<Rightarrow>
               if c = 43 \<or> c = 45 then c # replicate (width - length s) 48 @ cs
               else replicate (width - length s) 48 @ s
           | [] \<Rightarrow> replicate width 48)"

section \<open>The frame codec of the chat client\<close>

text \<open>The constants of \<open>ChatDelimiter\<close>.\<close>

definition ChatDelimiter_STARTER :: pystr where
  "ChatDelimiter_STARTER = [0x1b, 0x09]"

definition ChatDelimiter_SEPARATOR :: pystr where
  "ChatDelimiter_SEPARATOR = [0x0c]"

definition ChatDelimiter_ELEMENT_START :: pystr where
  "ChatDelimiter_ELEMENT_START = [0x11]"

definition ChatDelimiter_ELEMENT_END :: pystr where
  "ChatDelimiter_ELEMENT_END = [0x12]"

definition ChatDelimiter_SPACE :: pystr where
  "ChatDelimiter_SPACE = [0x06]"

definition ChatType_CONNECT :: pystr where "ChatType_CONNECT = ascii ''0001''"
definition ChatType_ENTER_CHAT_ROOM :: pystr where "ChatType_ENTER_CHAT_ROOM = ascii ''0002''"
definition ChatType_EXIT :: pystr where "ChatType_EXIT = ascii ''0004''"
definition ChatType_CHAT :: pystr where "ChatType_CHAT = ascii ''0005''"
definition ChatType_DISCONNECT :: pystr where "ChatType_DISCONNECT = ascii ''0007''"
definition ChatType_ENTER_INFO :: pystr where "ChatType_ENTER_INFO = ascii ''0012''"
definition ChatType_TEXT_DONATION :: pystr where "ChatType_TEXT_DONATION = ascii ''0018''"
definition ChatType_AD_BALLOON_DONATION :: pystr where "ChatType_AD_BALLOON_DONATION = ascii ''0087''"
definition ChatType_SUBSCRIBE :: pystr where "ChatType_SUBSCRIBE = ascii ''0093''"
definition ChatType_NOTIFICATION :: pystr where "ChatType_NOTIFICATION = ascii ''0104''"
definition ChatType_EMOTICON :: pystr where "ChatType_EMOTICON = ascii ''0109''"
definition ChatType_VIDEO_DONATION :: pystr where "ChatType_VIDEO_DONATION = ascii ''0105''"
definition ChatType_VIEWER :: pystr where "ChatType_VIEWER = ascii ''0127''"

text \<open>\<open>_get_byte_size\<close>, \<open>_get_payload_length\<close> and \<open>_get_packet\<close>.\<close>

definition get_byte_size :: "pystr \<Rightarrow> exn + nat" where
  "get_byte_size text = (case encode_utf8 text of Inl e \<Rightarrow> Inl e | Inr bs \<Rightarrow> Inr (length bs))"

definition get_payload_length :: "pystr \<Rightarrow> exn + pystr" where
  "get_payload_length payload =
     (case get_byte_size payload of Inl e \<Rightarrow> Inl e | Inr n \<Rightarrow> Inr (zfill (str_nat n) 6))"

definition get_packet :: "pystr \<Rightarrow> pystr \<Rightarrow> exn + pystr" where
  "get_packet chat_type payload =
     (case get_payload_length payload of
        Inl e \<Rightarrow> Inl e
      | Inr len \<Rightarrow> Inr ((ChatDelimiter_STARTER @ chat_type @ len @ ascii ''00'') @ payload))"

text \<open>\<open>_parse_message_type\<close>.\<close>

definition parse_message_type :: "pystr \<Rightarrow> exn + pystr" where
  "parse_message_type packet =
     (if \<not> startswith packet ChatDelimiter_STARTER then Inl InvalidPacketNoStarter
      else if 5 \<le> length packet then Inr (slice 2 6 packet)
      else Inl InvalidPacketTooShort)"

text \<open>The three outbound packets that take no argument of the session.\<close>

definition connect_payload :: pystr where
  "connect_payload = concat (replicate 3 ChatDelimiter_SEPARATOR) @ ascii ''16'' @ ChatDelimiter_SEPARATOR"

definition get_connect_packet :: "exn + pystr" where
  "get_connect_packet = get_packet ChatType_CONNECT connect_payload"


text \<open>
  The payload parsers: the packet is split on the separator, and a field is the part at
  its index, or the empty string when the packet has too few parts. A Python \<open>dict\<close> is
  an association list in insertion order.
\<close>

datatype pyval = VStr pystr | VList "pystr list"

type_synonym pydict = "(pystr \<times> pyval) list"

definition part :: "pystr list \<Rightarrow> nat \<Rightarrow> pystr" where
  "part parts i = (if i < length parts then parts ! i else [])"

definition parse_connect :: "pystr \<Rightarrow> pydict" where
  "parse_connect packet =
     (let parts = split packet ChatDelimiter_SEPARATOR in
      [(ascii ''username'', VStr (part parts 1)), (ascii ''syn'', VStr (part parts 2))])"

definition parse_enter_chat_room :: "pystr \<Rightarrow> pydict" where
  "parse_enter_chat_room packet =
     (let parts = split packet ChatDelimiter_SEPARATOR in
      [(ascii ''streamer_id'', VStr (part parts 2)), (ascii ''syn_ack'', VStr (part parts 7))])"

definition parse_chat :: "pystr \<Rightarrow> pydict" where
  "parse_chat packet =
     (let parts = split packet ChatDelimiter_SEPARATOR in
      [(ascii ''comment'', VStr (part parts 1)), (ascii ''user_id'', VStr (part parts 2)),
       (ascii ''username'', VStr (part parts 6))])"

definition parse_notification :: "pystr \<Rightarrow> pydict" where
  "parse_notification packet =
     (let parts = split packet ChatDelimiter_SEPARATOR in
      [(ascii ''notification'', VStr (part parts 4))])"

definition parse_donation :: "pystr \<Rightarrow> pydict" where
  "parse_donation packet =
     (let parts = split packet ChatDelimiter_SEPARATOR in
      [(ascii ''to'', VStr (part parts 2)), (ascii ''from'', VStr (part parts 3)),
       (ascii ''from_username'', VStr (part parts 4)), (ascii ''amount'', VStr (part parts 5))])"

definition parse_emoticon :: "pystr \<Rightarrow> pydict" where
  "parse_emoticon packet =
     (let parts = split packet ChatDelimiter_SEPARATOR in
      [(ascii ''emoticon_id'', VStr (part parts 3)), (ascii ''user_id'', VStr (part parts 6)),
       (ascii ''username'', VStr (part parts 7))])"

section \<open>The client\<close>

text \<open>The constants of \<open>SoopChatEvent\<close>.\<close>

definition SoopChatEvent_RAW :: pystr where "SoopChatEvent_RAW = ascii ''raw''"
definition SoopChatEvent_CONNECT :: pystr where "SoopChatEvent_CONNECT = ascii ''connect''"
definition SoopChatEvent_DISCONNECT :: pystr where "SoopChatEvent_DISCONNECT = ascii ''disconnect''"
definition SoopChatEvent_ENTER_CHAT_ROOM :: pystr where "SoopChatEvent_ENTER_CHAT_ROOM = ascii ''enter_chat_room''"
definition SoopChatEvent_CHAT :: pystr where "SoopChatEvent_CHAT = ascii ''chat''"
definition SoopChatEvent_NOTIFICATION :: pystr where "SoopChatEvent_NOTIFICATION = ascii ''notification''"
definition SoopChatEvent_TEXT_DONATION :: pystr where "SoopChatEvent_TEXT_DONATION = ascii ''text_donation''"
definition SoopChatEvent_VIDEO_DONATION :: pystr where "SoopChatEvent_VIDEO_DONATION = ascii ''video_donation''"
definition SoopChatEvent_AD_BALLOON_DONATION :: pystr where "SoopChatEvent_AD_BALLOON_DONATION = ascii ''ad_balloon_donation''"
definition SoopChatEvent_SUBSCRIBE :: pystr where "SoopChatEvent_SUBSCRIBE = ascii ''subscribe''"
definition SoopChatEvent_EMOTICON :: pystr where "SoopChatEvent_EMOTICON = ascii ''emoticon''"
definition SoopChatEvent_VIEWER :: pystr where "SoopChatEvent_VIEWER = ascii ''viewer''"
definition SoopChatEvent_EXIT :: pystr where "SoopChatEvent_EXIT = ascii ''exit''"
definition SoopChatEvent_UNKNOWN :: pystr where "SoopChatEvent_UNKNOWN = ascii ''unknown''"

text \<open>The dataclass \<open>LiveDetail\<close>.\<close>

record LiveDetail =
  result :: int
  chat_domain :: pystr
  chat_port :: int
  chat_no :: pystr
  bj_id :: pystr
  bj_nick :: pystr
  title :: pystr
  ftk :: pystr
  bps :: int
  geo_cc :: pystr
  geo_rc :: pystr
  acpt_lang :: pystr
  svc_lang :: pystr
  view_preset :: "pystr list"

text \<open>
  What an event carries: the \<open>raw\<close> event carries the packet, a string; every other
  event carries a dictionary.

  A handler is a callable of the subscriber. The client sees of it only whether a call
  returns or raises, so a handler is an identity, by which its calls are recorded, and the
  outcome of a call on each payload (\<open>None\<close> when the call returns). Handlers that call
  back into the client are outside this model.
\<close>

datatype payload = PStr pystr | PDict pydict

datatype handler = Handler (hid: nat) (outcome: "payload \<Rightarrow> exn option")

text \<open>
  The socket of the \<open>websockets\<close> library, as far as the client uses it: \<open>send\<close> raises
  \<open>ConnectionClosed\<close> once the connection is no longer open. The keepalive task is a
  handle that can be cancelled; the interleaving of its sends with the receive loop is
  not modelled.
\<close>

datatype websocket = WebSocket (is_open: bool)

datatype task = PingLoop

text \<open>
  What the client does to the outside, in order: a call of \<open>_emit\<close>, the call of a
  handler, the HTTP request of the resolver, the WebSocket handshake, a frame sent,
  the socket closed, the keepalive task created and cancelled. The \<open>print\<close> calls of the
  source are left out.
\<close>

datatype action =
    Emit pystr payload
  | Invoke nat payload
  | HttpPost
  | WsConnect pystr
  | WsSend pystr
  | WsClose
  | TaskCreate
  | TaskCancel

text \<open>The fields of \<open>SoopChatClient\<close> and its constructor.\<close>

record client =
  streamer_id :: pystr
  ws :: "websocket option"
  live_detail :: "LiveDetail option"
  handlers :: "pystr \<rightharpoonup> handler list"
  connected :: bool
  entered :: bool
  ping_task :: "task option"

definition init :: "pystr \<Rightarrow> client" where
  "init sid =
     \<lparr>streamer_id = sid, ws = None, live_detail = None, handlers = Map.empty,
      connected = False, entered = False, ping_task = None\<rparr>"

text \<open>
  A method that can raise returns the exception if there is one (\<open>None\<close> when it
  returns normally), the client as the call leaves it, and the actions it performed.
\<close>

type_synonym outcome = "exn option \<times> client \<times> action list"

text \<open>\<open>on\<close> and \<open>_emit\<close>. A handler that raises ends the loop over the handlers.\<close>

definition on :: "pystr \<Rightarrow> handler \<Rightarrow> client \<Rightarrow> client" where
  "on event h c =
     (case handlers c event of
        None \<Rightarrow> c\<lparr>handlers := (handlers c)(event \<mapsto> [h])\<rparr>
      | Some hs \<Rightarrow> c\<lparr>handlers := (handlers c)(event \<mapsto> hs @ [h])\<rparr>)"

fun call_handlers :: "handler list \<Rightarrow> payload \<Rightarrow> exn option \<times> action list" where
  "call_handlers [] d = (None, [])"
| "call_handlers (h # hs) d =
     (case outcome h d of
        Some e \<Rightarrow> (Some e, [Invoke (hid h) d])
      | None \<Rightarrow> (case call_handlers hs d of (r, acts) \<Rightarrow> (r, Invoke (hid h) d # acts)))"

definition emit :: "client \<Rightarrow> pystr \<Rightarrow> payload \<Rightarrow> exn option \<times> action list" where
  "emit c event d =
     (case handlers c event of
        None \<Rightarrow> (None, [Emit event d])
      | Some hs \<Rightarrow> (case call_handlers hs d of (r, acts) \<Rightarrow> (r, Emit event d # acts)))"

text \<open>
  \<open>_make_chat_url\<close>. \<open>str.lower\<close> maps \<open>A\<close> to \<open>Z\<close> onto \<open>a\<close> to \<open>z\<close> in an ASCII string;
  on any other string it follows the Unicode character database, which is the
  parameter \<open>ucd\<close>.
\<close>

definition ascii_lower :: "nat \<Rightarrow> nat" where
  "ascii_lower c = (if 65 \<le> c \<and> c \<le> 90 then c + 32 else c)"

definition lower :: "(pystr \<Rightarrow> pystr) \<Rightarrow> pystr \<Rightarrow> pystr" where
  "lower ucd s = (if \<forall>c \<in> set s. c < 128 then map ascii_lower s else ucd s)"

definition make_chat_url :: "(pystr \<Rightarrow> pystr) \<Rightarrow> client \<Rightarrow> exn + pystr" where
  "make_chat_url ucd c =
     (case live_detail c of
        None \<Rightarrow> Inl AttributeError
      | Some d \<Rightarrow>
          (let domain = lower ucd (chat_domain d);
               port = chat_port d + 1
           in Inr (ascii ''wss://'' @ domain @ ascii '':'' @ str_int port
                     @ ascii ''/Websocket/'' @ streamer_id c)))"

text \<open>\<open>_get_join_packet\<close>.\<close>

definition join_payload :: "pystr \<Rightarrow> pystr" where
  "join_payload no = (ChatDelimiter_SEPARATOR @ no) @ concat (replicate 5 ChatDelimiter_SEPARATOR)"

definition get_join_packet :: "client \<Rightarrow> exn + pystr" where
  "get_join_packet c =
     (case live_detail c of
        None \<Rightarrow> Inl AttributeError
      | Some d \<Rightarrow> get_packet ChatType_ENTER_CHAT_ROOM (join_payload (chat_no d)))"

text \<open>\<open>self.ws.send(packet)\<close>.\<close>

definition ws_send :: "client \<Rightarrow> pystr \<Rightarrow> exn option \<times> action list" where
  "ws_send c packet =
     (case ws c of
        None \<Rightarrow> (Some AttributeError, [])
      | Some w \<Rightarrow> if is_open w then (None, [WsSend packet]) else (Some ConnectionClosed, []))"

text \<open>
  \<open>disconnect\<close>. Its argument \<open>now\<close> is the reading of the clock that goes into the event.
\<close>

definition disconnect :: "pystr \<Rightarrow> client \<Rightarrow> outcome" where
  "disconnect now c =
     (if \<not> connected c then (None, c, [])
      else
        case emit c SoopChatEvent_DISCONNECT
               (PDict [(ascii ''streamer_id'', VStr (streamer_id c)), (ascii ''time'', VStr now)]) of
          (Some e, a0) \<Rightarrow> (Some e, c, a0)
        | (None, a0) \<Rightarrow>
            (let (c1, a1) = (case ping_task c of
                               Some t \<Rightarrow> (c\<lparr>ping_task := None\<rparr>, [TaskCancel])
                             | None \<Rightarrow> (c, []));
                 (c2, a2) = (case ws c1 of
                               Some w \<Rightarrow> (c1\<lparr>ws := None\<rparr>, [WsClose])
                             | None \<Rightarrow> (c1, []))
             in (None, c2\<lparr>connected := False\<rparr>, a0 @ a1 @ a2)))"

text \<open>
  \<open>_handle_message\<close>. A message of the socket is a \<open>str\<close> (a text frame) or \<open>bytes\<close> (a
  binary frame). \<open>received_time\<close> is the reading of the clock at the start, \<open>now\<close> the
  one that \<open>disconnect\<close> takes.
\<close>

datatype message = Text pystr | Binary pybytes

definition decode_data :: "message \<Rightarrow> exn + pystr" where
  "decode_data data = (case data of Text s \<Rightarrow> Inr s | Binary bs \<Rightarrow> decode_utf8 bs)"

definition emit_timed :: "client \<Rightarrow> action list \<Rightarrow> pystr \<Rightarrow> pydict \<Rightarrow> pystr \<Rightarrow> outcome" where
  "emit_timed c a0 event d received_time =
     (case emit c event (PDict (AList.update (ascii ''time'') (VStr received_time) d)) of
        (r, a1) \<Rightarrow> (r, c, a0 @ a1))"

definition handle_message :: "pystr \<Rightarrow> pystr \<Rightarrow> message \<Rightarrow> client \<Rightarrow> outcome" where
  "handle_message received_time now data c =
     (case decode_data data of
        Inl e \<Rightarrow> (Some e, c, [])
      | Inr packet \<Rightarrow>
     (case emit c SoopChatEvent_RAW (PStr packet) of
        (Some e, a0) \<Rightarrow> (Some e, c, a0)
      | (None, a0) \<Rightarrow>
     (case parse_message_type packet of
        Inl e \<Rightarrow> (None, c, a0)
      | Inr msg_type \<Rightarrow>
          if msg_type = ChatType_CONNECT then
            (let c1 = c\<lparr>connected := True\<rparr> in
             case emit c1 SoopChatEvent_CONNECT
                    (PDict (AList.update (ascii ''time'') (VStr received_time)
                             (AList.update (ascii ''streamer_id'') (VStr (streamer_id c1))
                               (parse_connect packet)))) of
               (Some e, a1) \<Rightarrow> (Some e, c1, a0 @ a1)
             | (None, a1) \<Rightarrow>
                 (case get_join_packet c1 of
                    Inl e \<Rightarrow> (Some e, c1, a0 @ a1)
                  | Inr join_packet \<Rightarrow>
                      (case ws_send c1 join_packet of (r, a2) \<Rightarrow> (r, c1, a0 @ a1 @ a2))))
          else if msg_type = ChatType_ENTER_CHAT_ROOM then
            (case emit_timed c a0 SoopChatEvent_ENTER_CHAT_ROOM
                    (parse_enter_chat_room packet) received_time of
               (Some e, c1, a1) \<Rightarrow> (Some e, c1, a1)
             | (None, c1, a1) \<Rightarrow> (None, c1\<lparr>entered := True\<rparr>, a1))
          else if msg_type = ChatType_CHAT then
            emit_timed c a0 SoopChatEvent_CHAT (parse_chat packet) received_time
          else if msg_type = ChatType_NOTIFICATION then
            emit_timed c a0 SoopChatEvent_NOTIFICATION (parse_notification packet) received_time
          else if msg_type = ChatType_TEXT_DONATION then
            emit_timed c a0 SoopChatEvent_TEXT_DONATION (parse_donation packet) received_time
          else if msg_type = ChatType_VIDEO_DONATION then
            emit_timed c a0 SoopChatEvent_VIDEO_DONATION (parse_donation packet) received_time
          else if msg_type = ChatType_AD_BALLOON_DONATION then
            emit_timed c a0 SoopChatEvent_AD_BALLOON_DONATION (parse_donation packet) received_time
          else if msg_type = ChatType_EMOTICON then
            emit_timed c a0 SoopChatEvent_EMOTICON (parse_emoticon packet) received_time
          else if msg_type = ChatType_DISCONNECT then
            (case disconnect now c of (r, c1, a1) \<Rightarrow> (r, c1, a0 @ a1))
          else
            (case emit c SoopChatEvent_UNKNOWN
                    (PDict [(ascii ''type'', VStr msg_type),
                            (ascii ''parts'', VList (split packet ChatDelimiter_SEPARATOR)),
                            (ascii ''time'', VStr received_time)]) of
               (r, a1) \<Rightarrow> (r, c, a0 @ a1)))))"

text \<open>
  \<open>connect\<close>. The outside of a session is what the resolver answers (\<open>_get_live_detail\<close>:
  the descriptor, or the exception of the request), what the handshake gives, the
  messages that the iteration over the socket yields, each with the two readings of
  the clock taken while it is handled, and how the iteration ends: it returns when
  the connection was closed normally and raises \<open>ConnectionClosed\<close> otherwise, and
  then \<open>disconnect\<close> runs with the reading \<open>final_time\<close>.
\<close>

record session =
  resolved :: "exn + LiveDetail"
  handshake :: "exn + websocket"
  inbound :: "(pystr \<times> pystr \<times> message) list"
  closed_with_error :: bool
  final_time :: pystr

fun receive_loop :: "(pystr \<times> pystr \<times> message) list \<Rightarrow> client \<Rightarrow> outcome" where
  "receive_loop [] c = (None, c, [])"
| "receive_loop ((received_time, now, data) # rest) c =
     (case handle_message received_time now data c of
        (Some e, c1, a1) \<Rightarrow> (Some e, c1, a1)
      | (None, c1, a1) \<Rightarrow>
          (case receive_loop rest c1 of (r, c2, a2) \<Rightarrow> (r, c2, a1 @ a2)))"

definition receive :: "session \<Rightarrow> client \<Rightarrow> outcome" where
  "receive env c =
     (case receive_loop (inbound env) c of
        (Some e, c1, a1) \<Rightarrow>
          if e = ConnectionClosed
          then (case disconnect (final_time env) c1 of (r, c2, a2) \<Rightarrow> (r, c2, a1 @ a2))
          else (Some e, c1, a1)
      | (None, c1, a1) \<Rightarrow>
          if closed_with_error env
          then (case disconnect (final_time env) c1 of (r, c2, a2) \<Rightarrow> (r, c2, a1 @ a2))
          else (None, c1, a1))"

definition connect :: "(pystr \<Rightarrow> pystr) \<Rightarrow> session \<Rightarrow> client \<Rightarrow> outcome" where
  "connect ucd env c =
     (if connected c then (Some AlreadyConnected, c, [])
      else
        case resolved env of
          Inl e \<Rightarrow> (Some e, c, [HttpPost])
        | Inr d \<Rightarrow>
     (let c1 = c\<lparr>live_detail := Some d\<rparr> in
      if result d = 0 then (Some NotBroadcasting, c1, [HttpPost])
      else
        case make_chat_url ucd c1 of
          Inl e \<Rightarrow> (Some e, c1, [HttpPost])
        | Inr chat_url \<Rightarrow>
     (case handshake env of
        Inl e \<Rightarrow> (Some e, c1, [HttpPost, WsConnect chat_url])
      | Inr w \<Rightarrow>
     (let c2 = c1\<lparr>ws := Some w\<rparr> in
      case get_connect_packet of
        Inl e \<Rightarrow> (Some e, c2, [HttpPost, WsConnect chat_url])
      | Inr connect_packet \<Rightarrow>
     (case ws_send c2 connect_packet of
        (Some e, a1) \<Rightarrow> (Some e, c2, [HttpPost, WsConnect chat_url] @ a1)
      | (None, a1) \<Rightarrow>
     (let c3 = c2\<lparr>ping_task := Some PingLoop\<rparr> in
      case receive env c3 of
        (r, c4, a2) \<Rightarrow> (r, c4, [HttpPost, WsConnect chat_url] @ a1 @ [TaskCreate] @ a2)))))))"

text \<open>What was emitted, and of which kinds, among the actions of a call.\<close>

fun emitted :: "action list \<Rightarrow> (pystr \<times> payload) list" where
  "emitted [] = []"
| "emitted (Emit k d # acts) = (k, d) # emitted acts"
| "emitted (a # acts) = emitted acts"

definition kinds :: "action list \<Rightarrow> pystr list" where
  "kinds acts = map fst (emitted acts)"

section \<open>The frame layout of the specification\<close>

text \<open>
  The length field as the specification words it: six decimal digits, zero-padded,
  written out digit by digit.
\<close>

definition six_digits :: "nat \<Rightarrow> pystr" where
  "six_digits n =
     [digit (n div 100000 mod 10), digit (n div 10000 mod 10), digit (n div 1000 mod 10),
      digit (n div 100 mod 10), digit (n div 10 mod 10), digit (n mod 10)]"

fun pad_digits :: "nat \<Rightarrow> nat \<Rightarrow> pystr" where
  "pad_digits 0 n = []"
| "pad_digits (Suc k) n = pad_digits k (n div 10) @ [digit (n mod 10)]"

declare str_nat.simps [simp del]


section \<open>A scripted session\<close>

text \<open>
  The descriptor of the happy path of the specification: the resolver answers
  \<open>RESULT=1\<close>, \<open>CHDOMAIN="Chat-X"\<close>, \<open>CHPT=5000\<close>, \<open>CHATNO="99"\<close>.
\<close>

definition happy_detail :: LiveDetail where
  "happy_detail =
     \<lparr>result = 1, chat_domain = ascii ''Chat-X'', chat_port = 5000, chat_no = ascii ''99'',
      bj_id = [], bj_nick = [], title = [], ftk = [], bps = 0, geo_cc = [], geo_rc = [],
      acpt_lang = [], svc_lang = [], view_preset = []\<rparr>"


text \<open>Two subscribers for scripted sessions: one whose calls raise, one whose calls return.\<close>

definition raising :: "nat \<Rightarrow> handler" where
  "raising i = Handler i (\<lambda>d. Some (OtherException i))"

definition returning :: "nat \<Rightarrow> handler" where
  "returning i = Handler i (\<lambda>d. None)"



text \<open>
  The session of the specification's ordering scenario: the resolver answers the happy
  path descriptor, the handshake gives an open socket, and the socket yields frames of
  the types 0001, 0002, 0005 and 0007 and is then closed normally. In the second
  session the resolver answers \<open>RESULT=0\<close>.
\<close>

definition scripted_session :: session where
  "scripted_session =
     \<lparr>resolved = Inr happy_detail,
      handshake = Inr (WebSocket True),
      inbound =
        [(ascii ''t1'', ascii ''n1'', Text (ChatDelimiter_STARTER @ ascii ''000100000000'')),
         (ascii ''t2'', ascii ''n2'', Text (ChatDelimiter_STARTER @ ascii ''000200000000'')),
         (ascii ''t3'', ascii ''n3'', Text (ChatDelimiter_STARTER @ ascii ''000500000000'')),
         (ascii ''t4'', ascii ''n4'', Text (ChatDelimiter_STARTER @ ascii ''000700000000''))],
      closed_with_error = False,
      final_time = ascii ''t9''\<rparr>"

definition not_live_session :: session where
  "not_live_session = scripted_session\<lparr>resolved := Inr (happy_detail\<lparr>result := 0\<rparr>)\<rparr>"


section \<open>Facts about strings\<close>

lemma ascii_eq_iff [simp]: "ascii s = ascii t \<longleftrightarrow> s = t"
  by (simp add: ascii_def inj_map_eq_map [OF inj_of_char])

lemma ascii_Nil [simp]: "ascii [] = []"
  by (simp add: ascii_def)

lemma ascii_Cons: "ascii (c # cs) = of_char c # ascii cs"
  by (simp add: ascii_def)

lemma ascii_length [simp]: "length (ascii s) = length s"
  by (simp add: ascii_def)

lemma startswith_iff: "startswith s p \<longleftrightarrow> (\<exists>rest. s = p @ rest)"
proof
  assume "startswith s p"
  then have "s = p @ drop (length p) s"
    by (metis append_take_drop_id startswith_def)
  then show "\<exists>rest. s = p @ rest" ..
next
  assume "\<exists>rest. s = p @ rest"
  then show "startswith s p" by (auto simp: startswith_def)
qed

lemma slice_2_6:
  assumes "6 \<le> length s"
  shows "slice 2 6 s = [s ! 2, s ! 3, s ! 4, s ! 5]"
proof -
  have "length (slice 2 6 s) = 4" using assms by (simp add: slice_def)
  moreover have "\<forall>i<4. slice 2 6 s ! i = s ! (2 + i)" using assms by (simp add: slice_def)
  ultimately show ?thesis
    by (intro nth_equalityI) (auto simp: nth_Cons' numeral_eq_Suc less_Suc_eq)
qed

subsection \<open>Decimal digits and zero padding\<close>

lemma pad_digits_zero: "pad_digits k 0 = replicate k 48"
  by (induction k) (simp_all add: digit_def replicate_append_same)

lemma str_nat_length: "n < 10 ^ k \<Longrightarrow> 0 < k \<Longrightarrow> length (str_nat n) \<le> k"
proof (induction k arbitrary: n)
  case 0 then show ?case by simp
next
  case (Suc k)
  show ?case
  proof (cases "n < 10")
    case True then show ?thesis by (simp add: str_nat.simps [of n])
  next
    case False
    with Suc.prems have "n div 10 < 10 ^ k" "0 < k" by (auto intro: Nat.gr0I)
    with Suc.IH have "length (str_nat (n div 10)) \<le> k" by blast
    with False show ?thesis by (simp add: str_nat.simps [of n])
  qed
qed

lemma str_nat_padded:
  "n < 10 ^ k \<Longrightarrow> 0 < k \<Longrightarrow> replicate (k - length (str_nat n)) 48 @ str_nat n = pad_digits k n"
proof (induction k arbitrary: n)
  case 0 then show ?case by simp
next
  case (Suc k)
  show ?case
  proof (cases "n < 10")
    case True then show ?thesis by (simp add: str_nat.simps [of n] pad_digits_zero)
  next
    case False
    with Suc.prems have *: "n div 10 < 10 ^ k" "0 < k" by (auto intro: Nat.gr0I)
    from str_nat_length [OF *] have "length (str_nat (n div 10)) \<le> k" .
    with False Suc.IH [OF *] show ?thesis by (simp add: str_nat.simps [of n] Suc_diff_le)
  qed
qed

lemma str_nat_first: "\<exists>c cs. str_nat n = c # cs \<and> 48 \<le> c \<and> c < 58"
proof (induction n rule: str_nat.induct)
  case (1 n)
  show ?case
  proof (cases "n < 10")
    case True then show ?thesis by (simp add: str_nat.simps [of n] digit_def)
  next
    case False
    with 1 obtain c cs where "str_nat (n div 10) = c # cs" "48 \<le> c" "c < 58" by blast
    with False show ?thesis by (simp add: str_nat.simps [of n])
  qed
qed

lemma pad_digits_six: "pad_digits 6 n = six_digits n"
proof -
  have six: "(6::nat) = Suc (Suc (Suc (Suc (Suc (Suc 0)))))" by simp
  have "pad_digits 6 n = pad_digits (Suc (Suc (Suc (Suc (Suc (Suc 0)))))) n"
    by (simp only: six)
  also have "\<dots> =
      [digit (n div 10 div 10 div 10 div 10 div 10 mod 10),
       digit (n div 10 div 10 div 10 div 10 mod 10), digit (n div 10 div 10 div 10 mod 10),
       digit (n div 10 div 10 mod 10), digit (n div 10 mod 10), digit (n mod 10)]"
    by (simp only: pad_digits.simps append.simps)
  also have "\<dots> = six_digits n"
    by (simp only: six_digits_def div_mult2_eq [symmetric]) simp
  finally show ?thesis .
qed

lemma zfill_str_nat: "n < 1000000 \<Longrightarrow> zfill (str_nat n) 6 = six_digits n"
proof -
  assume n: "n < 1000000"
  obtain c cs where c: "str_nat n = c # cs" "48 \<le> c" "c < 58" using str_nat_first by blast
  from n have "n < 10 ^ 6" by simp
  from str_nat_padded [OF this] str_nat_length [OF this]
  have p: "replicate (6 - length (str_nat n)) 48 @ str_nat n = pad_digits 6 n"
    and l: "length (str_nat n) \<le> 6" by simp_all
  show ?thesis
  proof (cases "length (str_nat n) = 6")
    case True with p show ?thesis by (simp add: zfill_def pad_digits_six)
  next
    case False
    with l have "\<not> 6 \<le> length (str_nat n)" by simp
    with p c show ?thesis by (simp add: zfill_def pad_digits_six)
  qed
qed

subsection \<open>The length of a UTF-8 encoding\<close>

lemma encode_cp_length: "1 \<le> length (encode_cp c)" "128 \<le> c \<Longrightarrow> 2 \<le> length (encode_cp c)"
  by (simp_all add: encode_cp_def)

lemma encode_utf8_length: "encode_utf8 s = Inr bs \<Longrightarrow> length s \<le> length bs"
proof (induction s arbitrary: bs)
  case Nil then show ?case by simp
next
  case (Cons c cs)
  then show ?case using encode_cp_length(1) [of c]
    by (auto split: if_splits sum.splits)
qed

lemma encode_utf8_multibyte:
  "encode_utf8 s = Inr bs \<Longrightarrow> \<exists>c\<in>set s. 128 \<le> c \<Longrightarrow> length s < length bs"
proof (induction s arbitrary: bs)
  case Nil then show ?case by simp
next
  case (Cons c cs)
  from Cons.prems(1) obtain bs' where bs': "encode_utf8 cs = Inr bs'" "bs = encode_cp c @ bs'"
    by (auto split: if_splits sum.splits)
  show ?case
  proof (cases "128 \<le> c")
    case True
    with encode_cp_length(2) [of c] encode_utf8_length [OF bs'(1)] bs' show ?thesis by simp
  next
    case False
    with Cons.prems(2) have "\<exists>c\<in>set cs. 128 \<le> c" by simp
    from Cons.IH [OF bs'(1) this] encode_cp_length(1) [of c] bs' show ?thesis by simp
  qed
qed


lemma get_packet_eq:
  assumes "encode_utf8 payload = Inr bs" and "length bs < 1000000"
  shows "get_packet chat_type payload =
           Inr (ChatDelimiter_STARTER @ chat_type @ six_digits (length bs) @ ascii ''00'' @ payload)"
  using assms
  by (simp add: get_packet_def get_payload_length_def get_byte_size_def zfill_str_nat)

section \<open>The frame codec: encoding\<close>

text \<open>
  Claim C6. When the UTF-8 encoding of the payload has fewer than 1,000,000 octets, the
  packet is the starter, the type code, the number of octets of the encoding as six
  zero-padded decimal digits, the two characters \<open>00\<close> and the payload. The length
  counts octets: for a payload with a character outside ASCII it is larger than the
  number of characters.
\<close>

theorem get_packet_layout:
  assumes "encode_utf8 payload = Inr bs" and "length bs < 1000000"
  shows "get_packet chat_type payload =
           Inr (ChatDelimiter_STARTER @ chat_type @ six_digits (length bs) @ ascii ''00'' @ payload)
         \<and> ((\<exists>c\<in>set payload. 128 \<le> c) \<longrightarrow> length payload < length bs)"
  using assms encode_utf8_multibyte [of payload bs] get_packet_eq [of payload bs chat_type]
  by simp

theorem get_packet_layout_witness:
  "encode_utf8 [0xD55C, 0xAE00] = Inr [237, 149, 156, 234, 184, 128]
   \<and> length [237, 149, 156, 234, 184, 128 :: nat] < 1000000
   \<and> (\<exists>c\<in>set [0xD55C, 0xAE00 :: nat]. 128 \<le> c)
   \<and> get_packet ChatType_CHAT [0xD55C, 0xAE00] =
       Inr (ChatDelimiter_STARTER @ ascii ''0005'' @ ascii ''000006'' @ ascii ''00'' @ [0xD55C, 0xAE00])
   \<and> length [0xD55C, 0xAE00 :: nat] < length [237, 149, 156, 234, 184, 128 :: nat]"
  using get_packet_layout [of "[0xD55C, 0xAE00]" "[237, 149, 156, 234, 184, 128]" ChatType_CHAT]
  by (simp add: encode_cp_def surrogate_def six_digits_def digit_def ChatType_CHAT_def ascii_Cons)

section \<open>The frame codec: the message type\<close>

text \<open>
  Claim C4, as the code has it. Parsing the type of a message fails when the message
  does not begin with the starter (ESC, TAB) or has fewer than 5 characters. A message
  that begins with the starter and has at least 6 characters, so every message with a
  whole header of 14 characters, parses to the 4 characters at the positions 2 to 5.
  Nothing is said of a message of 5 characters that begins with the starter.
\<close>

theorem parse_message_type_spec:
  "(\<not> (\<exists>rest. packet = ChatDelimiter_STARTER @ rest) \<or> length packet < 5 \<longrightarrow>
      (\<exists>e. parse_message_type packet = Inl e))
   \<and> ((\<exists>rest. packet = ChatDelimiter_STARTER @ rest) \<and> 6 \<le> length packet \<longrightarrow>
        parse_message_type packet = Inr [packet ! 2, packet ! 3, packet ! 4, packet ! 5])"
  by (auto simp: parse_message_type_def startswith_iff slice_2_6)

theorem parse_message_type_spec_witness:
  "(\<exists>rest. ChatDelimiter_STARTER @ ascii ''000500000100'' @ ChatDelimiter_SEPARATOR
             = ChatDelimiter_STARTER @ rest)
   \<and> 6 \<le> length (ChatDelimiter_STARTER @ ascii ''000500000100'' @ ChatDelimiter_SEPARATOR)
   \<and> parse_message_type (ChatDelimiter_STARTER @ ascii ''000500000100'' @ ChatDelimiter_SEPARATOR)
       = Inr ChatType_CHAT"
  using parse_message_type_spec
          [of "ChatDelimiter_STARTER @ ascii ''000500000100'' @ ChatDelimiter_SEPARATOR"]
  by (simp add: ChatDelimiter_STARTER_def ChatDelimiter_SEPARATOR_def ChatType_CHAT_def ascii_Cons)

text \<open>
  The claim as it is written fails on a message that begins with the starter and is
  shorter than the header of 14 characters: its type is parsed.
\<close>

theorem parse_message_type_short_counterexample:
  "length (ChatDelimiter_STARTER @ ascii ''0005'') < 14
   \<and> parse_message_type (ChatDelimiter_STARTER @ ascii ''0005'') = Inr (ascii ''0005'')"
  by (simp add: parse_message_type_def startswith_def slice_def ChatDelimiter_STARTER_def)


section \<open>The frame codec: the outbound packets\<close>



lemma six_digits_length [simp]: "length (six_digits n) = 6"
  by (simp add: six_digits_def)









section \<open>The WebSocket address\<close>

lemma str_int_5001: "str_int 5001 = [53, 48, 48, 49]"
  by (simp add: str_int_def str_nat.simps digit_def)

lemma lower_Chat_X: "lower ucd [67, 104, 97, 116, 45, 88] = [99, 104, 97, 116, 45, 120]"
  by (simp add: lower_def ascii_lower_def)

text \<open>
  Claim C7. With a resolved descriptor, the address is \<open>wss://\<close>, the chat host in lower
  case, a colon, the chat port plus one in decimal, \<open>/Websocket/\<close> and the room
  identifier the client was made with; the host \<open>Chat-X\<close> and the port 5000 give
  \<open>wss://chat-x:5001/Websocket/\<close> followed by the room identifier.
\<close>

theorem make_chat_url_spec:
  "(live_detail c = Some d \<longrightarrow>
      make_chat_url ucd c =
        Inr (ascii ''wss://'' @ lower ucd (chat_domain d) @ ascii '':'' @ str_int (chat_port d + 1)
               @ ascii ''/Websocket/'' @ streamer_id c))
   \<and> (live_detail c = Some d \<and> chat_domain d = ascii ''Chat-X'' \<and> chat_port d = 5000 \<longrightarrow>
      make_chat_url ucd c = Inr (ascii ''wss://chat-x:5001/Websocket/'' @ streamer_id c))"
  by (simp add: make_chat_url_def str_int_5001 lower_Chat_X ascii_Cons)

theorem make_chat_url_spec_witness:
  "live_detail ((init (ascii ''room''))\<lparr>live_detail := Some happy_detail\<rparr>) = Some happy_detail
   \<and> chat_domain happy_detail = ascii ''Chat-X'' \<and> chat_port happy_detail = 5000
   \<and> make_chat_url (\<lambda>s. s) ((init (ascii ''room''))\<lparr>live_detail := Some happy_detail\<rparr>)
       = Inr (ascii ''wss://chat-x:5001/Websocket/room'')"
  using make_chat_url_spec
          [of "(init (ascii ''room''))\<lparr>live_detail := Some happy_detail\<rparr>" happy_detail "\<lambda>s. s"]
  by (simp add: happy_detail_def init_def ascii_Cons str_int_5001 lower_Chat_X)


section \<open>The dispatcher\<close>

lemma call_handlers_return:
  "\<forall>g\<in>set hs. outcome g d = None \<Longrightarrow>
     call_handlers hs d = (None, map (\<lambda>g. Invoke (hid g) d) hs)"
  by (induction hs) simp_all

lemma call_handlers_raise:
  "\<forall>g\<in>set pre. outcome g d = None \<Longrightarrow> outcome h d = Some e \<Longrightarrow>
     call_handlers (pre @ h # post) d = (Some e, map (\<lambda>g. Invoke (hid g) d) (pre @ [h]))"
  by (induction pre) simp_all

lemma emitted_append [simp]: "emitted (a @ b) = emitted a @ emitted b"
  by (induction a rule: emitted.induct) simp_all

lemma emitted_call_handlers [simp]: "emitted (snd (call_handlers hs d)) = []"
  by (induction hs) (auto split: option.splits prod.splits)

lemma emitted_emit [simp]: "emitted (snd (emit c event d)) = [(event, d)]"
proof (cases "handlers c event")
  case None
  then show ?thesis by (simp add: emit_def)
next
  case (Some hs)
  obtain r acts where ch: "call_handlers hs d = (r, acts)" by (cases "call_handlers hs d")
  with emitted_call_handlers [of hs d] have "emitted acts = []" by simp
  with Some ch show ?thesis by (simp add: emit_def)
qed

lemma emit_first: "\<exists>rest. snd (emit c event d) = Emit event d # rest \<and> emitted rest = []"
proof (cases "handlers c event")
  case None
  then show ?thesis by (simp add: emit_def)
next
  case (Some hs)
  obtain r acts where ch: "call_handlers hs d = (r, acts)" by (cases "call_handlers hs d")
  with emitted_call_handlers [of hs d] have "emitted acts = []" by simp
  with Some ch show ?thesis by (simp add: emit_def)
qed

lemma emit_return:
  assumes "\<forall>hs. handlers c event = Some hs \<longrightarrow> (\<forall>g\<in>set hs. outcome g d = None)"
  shows "fst (emit c event d) = None"
proof (cases "handlers c event")
  case None
  then show ?thesis by (simp add: emit_def)
next
  case (Some hs)
  with assms have "\<forall>g\<in>set hs. outcome g d = None" by simp
  from call_handlers_return [OF this] Some show ?thesis by (simp add: emit_def)
qed

text \<open>
  Claim C2, as the code has it. \<open>_emit\<close> calls the handlers of the kind in the order of
  their registration, each with the same payload, and catches nothing: when a handler
  raises, the exception leaves \<open>_emit\<close> and the handlers registered after it are not
  called. When no handler raises, all of them are called.
\<close>

theorem emit_handlers_in_order:
  "(handlers c event = Some (pre @ h # post) \<and> (\<forall>g\<in>set pre. outcome g d = None)
      \<and> outcome h d = Some e \<longrightarrow>
      emit c event d = (Some e, Emit event d # map (\<lambda>g. Invoke (hid g) d) (pre @ [h])))
   \<and> (handlers c event = Some hs \<and> (\<forall>g\<in>set hs. outcome g d = None) \<longrightarrow>
      emit c event d = (None, Emit event d # map (\<lambda>g. Invoke (hid g) d) hs))"
  by (simp add: emit_def call_handlers_return call_handlers_raise del: map_append)

theorem emit_handlers_in_order_witness:
  "handlers (on (ascii ''chat'') (returning 2) (on (ascii ''chat'') (returning 1) (init (ascii ''room''))))
       (ascii ''chat'') = Some [returning 1, returning 2]
   \<and> outcome (returning 1) (PStr (ascii ''x'')) = None
   \<and> outcome (returning 2) (PStr (ascii ''x'')) = None
   \<and> emit (on (ascii ''chat'') (returning 2) (on (ascii ''chat'') (returning 1) (init (ascii ''room''))))
        (ascii ''chat'') (PStr (ascii ''x''))
       = (None, [Emit (ascii ''chat'') (PStr (ascii ''x'')), Invoke 1 (PStr (ascii ''x'')),
                 Invoke 2 (PStr (ascii ''x''))])"
  using emit_handlers_in_order
          [of "on (ascii ''chat'') (returning 2) (on (ascii ''chat'') (returning 1) (init (ascii ''room'')))"
              "ascii ''chat''" "[]" "returning 1" "[returning 2]" "PStr (ascii ''x'')" "OtherException 0"
              "[returning 1, returning 2]"]
  by (simp add: on_def init_def returning_def)

text \<open>
  The claim as it is written fails with two handlers of one kind of which the first
  raises: the exception comes out of \<open>_emit\<close> and the second handler is not called.
\<close>

theorem emit_handler_raises_counterexample:
  "emit (on (ascii ''chat'') (returning 2) (on (ascii ''chat'') (raising 1) (init (ascii ''room''))))
      (ascii ''chat'') (PStr (ascii ''x''))
     = (Some (OtherException 1), [Emit (ascii ''chat'') (PStr (ascii ''x'')), Invoke 1 (PStr (ascii ''x''))])"
  by (simp add: emit_def on_def init_def returning_def raising_def)


section \<open>Handling a message\<close>

lemma emitted_emit_eq: "emit c event d = (r, a) \<Longrightarrow> emitted a = [(event, d)]"
  using emitted_emit [of c event d] by simp

lemma emitted_ws_send [simp]: "emitted (snd (ws_send c packet)) = []"
  by (simp add: ws_send_def split: option.splits)

lemma emitted_emit_timed [simp]:
  "emitted (snd (snd (emit_timed c a0 event d t)))
     = emitted a0 @ [(event, PDict (AList.update (ascii ''time'') (VStr t) d))]"
  by (simp add: emit_timed_def case_prod_beta)

lemma client_emit_timed [simp]: "fst (snd (emit_timed c a0 event d t)) = c"
  by (simp add: emit_timed_def case_prod_beta)

lemma disconnect_not_connected: "\<not> connected c \<Longrightarrow> disconnect now c = (None, c, [])"
  by (simp add: disconnect_def)

lemma emitted_disconnect:
  "emitted (snd (snd (disconnect now c)))
     = (if connected c
        then [(SoopChatEvent_DISCONNECT,
               PDict [(ascii ''streamer_id'', VStr (streamer_id c)), (ascii ''time'', VStr now)])]
        else [])"
proof (cases "connected c")
  case False
  then show ?thesis by (simp add: disconnect_def)
next
  case True
  obtain r a where e: "emit c SoopChatEvent_DISCONNECT
      (PDict [(ascii ''streamer_id'', VStr (streamer_id c)), (ascii ''time'', VStr now)]) = (r, a)"
    by (cases "emit c SoopChatEvent_DISCONNECT
      (PDict [(ascii ''streamer_id'', VStr (streamer_id c)), (ascii ''time'', VStr now)])")
  from emitted_emit_eq [OF e] True e show ?thesis
    by (cases r) (simp_all add: disconnect_def Let_def split: option.splits)
qed

lemma disconnect_releases:
  assumes "connected c"
    and "emit c SoopChatEvent_DISCONNECT
           (PDict [(ascii ''streamer_id'', VStr (streamer_id c)), (ascii ''time'', VStr now)]) = (None, a0)"
  shows "disconnect now c =
           (None, c\<lparr>ping_task := None, ws := None, connected := False\<rparr>,
            a0 @ (if ping_task c = None then [] else [TaskCancel])
               @ (if ws c = None then [] else [WsClose]))"
  using assms by (simp add: disconnect_def Let_def split: option.splits)

text \<open>The message handler after the \<open>raw\<close> event, when the type of the packet parses.\<close>

lemma handle_message_raw_raises:
  "decode_data data = Inr packet \<Longrightarrow> emit c SoopChatEvent_RAW (PStr packet) = (Some e, a0) \<Longrightarrow>
     handle_message t now data c = (Some e, c, a0)"
  by (simp add: handle_message_def)

lemma handle_message_invalid:
  "decode_data data = Inr packet \<Longrightarrow> emit c SoopChatEvent_RAW (PStr packet) = (r, a0) \<Longrightarrow>
     parse_message_type packet = Inl e \<Longrightarrow> handle_message t now data c = (r, c, a0)"
  by (cases r) (simp_all add: handle_message_def)

lemma handle_message_connect:
  assumes "decode_data data = Inr packet"
    and "emit c SoopChatEvent_RAW (PStr packet) = (None, a0)"
    and "parse_message_type packet = Inr ChatType_CONNECT"
  shows "fst (snd (handle_message t now data c)) = c\<lparr>connected := True\<rparr>"
    and "emitted (snd (snd (handle_message t now data c)))
           = emitted a0 @
             [(SoopChatEvent_CONNECT,
               PDict (AList.update (ascii ''time'') (VStr t)
                        (AList.update (ascii ''streamer_id'') (VStr (streamer_id c))
                           (parse_connect packet))))]"
  using assms
  by (simp_all add: handle_message_def Let_def case_prod_beta split: option.splits sum.splits)

lemma handle_message_enter:
  assumes "decode_data data = Inr packet"
    and "emit c SoopChatEvent_RAW (PStr packet) = (None, a0)"
    and "parse_message_type packet = Inr ChatType_ENTER_CHAT_ROOM"
  shows "emitted (snd (snd (handle_message t now data c)))
           = emitted a0 @
             [(SoopChatEvent_ENTER_CHAT_ROOM,
               PDict (AList.update (ascii ''time'') (VStr t) (parse_enter_chat_room packet)))]"
    and "connected (fst (snd (handle_message t now data c))) = connected c"
proof -
  have ne: "ChatType_ENTER_CHAT_ROOM \<noteq> ChatType_CONNECT"
    by (simp add: ChatType_ENTER_CHAT_ROOM_def ChatType_CONNECT_def)
  let ?e = "emit_timed c a0 SoopChatEvent_ENTER_CHAT_ROOM (parse_enter_chat_room packet) t"
  obtain r c1 a1 where e: "?e = (r, c1, a1)" by (cases ?e)
  with emitted_emit_timed [of c a0 SoopChatEvent_ENTER_CHAT_ROOM "parse_enter_chat_room packet" t]
    client_emit_timed [of c a0 SoopChatEvent_ENTER_CHAT_ROOM "parse_enter_chat_room packet" t]
  have a1: "emitted a1 = emitted a0 @
             [(SoopChatEvent_ENTER_CHAT_ROOM,
               PDict (AList.update (ascii ''time'') (VStr t) (parse_enter_chat_room packet)))]"
    and c1: "c1 = c" by simp_all
  from assms ne e a1 c1
  show "emitted (snd (snd (handle_message t now data c)))
           = emitted a0 @
             [(SoopChatEvent_ENTER_CHAT_ROOM,
               PDict (AList.update (ascii ''time'') (VStr t) (parse_enter_chat_room packet)))]"
    by (cases r) (simp_all add: handle_message_def)
  from assms ne e a1 c1
  show "connected (fst (snd (handle_message t now data c))) = connected c"
    by (cases r) (simp_all add: handle_message_def)
qed

lemmas ChatType_defs =
  ChatType_CONNECT_def ChatType_ENTER_CHAT_ROOM_def ChatType_CHAT_def ChatType_NOTIFICATION_def
  ChatType_TEXT_DONATION_def ChatType_VIDEO_DONATION_def ChatType_AD_BALLOON_DONATION_def
  ChatType_EMOTICON_def ChatType_DISCONNECT_def

lemmas SoopChatEvent_defs =
  SoopChatEvent_RAW_def SoopChatEvent_CONNECT_def SoopChatEvent_DISCONNECT_def
  SoopChatEvent_ENTER_CHAT_ROOM_def SoopChatEvent_CHAT_def SoopChatEvent_NOTIFICATION_def
  SoopChatEvent_TEXT_DONATION_def SoopChatEvent_VIDEO_DONATION_def
  SoopChatEvent_AD_BALLOON_DONATION_def SoopChatEvent_EMOTICON_def SoopChatEvent_UNKNOWN_def

lemma raw_returns:
  assumes "\<forall>hs. handlers c (ascii ''raw'') = Some hs \<longrightarrow> (\<forall>g\<in>set hs. outcome g (PStr packet) = None)"
  shows "\<exists>a0. emit c SoopChatEvent_RAW (PStr packet) = (None, a0)
              \<and> emitted a0 = [(ascii ''raw'', PStr packet)]"
proof -
  from assms have "fst (emit c SoopChatEvent_RAW (PStr packet)) = None"
    by (intro emit_return) (simp add: SoopChatEvent_RAW_def)
  moreover have "emitted (snd (emit c SoopChatEvent_RAW (PStr packet))) = [(ascii ''raw'', PStr packet)]"
    by (simp add: SoopChatEvent_RAW_def)
  ultimately show ?thesis by (cases "emit c SoopChatEvent_RAW (PStr packet)") simp
qed

text \<open>
  Claim C1, as the code has it. After the \<open>raw\<close> event, when no subscriber of \<open>raw\<close>
  raises, a frame of type 0001, 0002, 0005, 0018, 0087, 0104, 0105 or 0109 emits the
  event of its kind; a frame of type 0007 emits \<open>disconnect\<close> when the client is
  connected and nothing otherwise; a frame of type 0012, and a frame of any type that
  is not in the table, emits \<open>unknown\<close> with the type, the parts of the packet and the
  time. The types 0004, 0093 and 0127 are not covered.
\<close>

theorem handle_message_kind_mapping:
  assumes "decode_data data = Inr packet"
    and "parse_message_type packet = Inr code"
    and "\<forall>hs. handlers c (ascii ''raw'') = Some hs \<longrightarrow> (\<forall>g\<in>set hs. outcome g (PStr packet) = None)"
  shows "(code = ascii ''0001'' \<longrightarrow>
            kinds (snd (snd (handle_message t now data c))) = [ascii ''raw'', ascii ''connect''])
     \<and> (code = ascii ''0002'' \<longrightarrow>
            kinds (snd (snd (handle_message t now data c))) = [ascii ''raw'', ascii ''enter_chat_room''])
     \<and> (code = ascii ''0005'' \<longrightarrow>
            kinds (snd (snd (handle_message t now data c))) = [ascii ''raw'', ascii ''chat''])
     \<and> (code = ascii ''0018'' \<longrightarrow>
            kinds (snd (snd (handle_message t now data c))) = [ascii ''raw'', ascii ''text_donation''])
     \<and> (code = ascii ''0087'' \<longrightarrow>
            kinds (snd (snd (handle_message t now data c))) = [ascii ''raw'', ascii ''ad_balloon_donation''])
     \<and> (code = ascii ''0104'' \<longrightarrow>
            kinds (snd (snd (handle_message t now data c))) = [ascii ''raw'', ascii ''notification''])
     \<and> (code = ascii ''0105'' \<longrightarrow>
            kinds (snd (snd (handle_message t now data c))) = [ascii ''raw'', ascii ''video_donation''])
     \<and> (code = ascii ''0109'' \<longrightarrow>
            kinds (snd (snd (handle_message t now data c))) = [ascii ''raw'', ascii ''emoticon''])
     \<and> (code = ascii ''0007'' \<longrightarrow>
            kinds (snd (snd (handle_message t now data c)))
              = (if connected c then [ascii ''raw'', ascii ''disconnect''] else [ascii ''raw'']))
     \<and> (code = ascii ''0012'' \<or>
          code \<notin> {ascii ''0001'', ascii ''0002'', ascii ''0004'', ascii ''0005'', ascii ''0007'',
                    ascii ''0012'', ascii ''0018'', ascii ''0087'', ascii ''0093'', ascii ''0104'',
                    ascii ''0105'', ascii ''0109'', ascii ''0127''} \<longrightarrow>
            emitted (snd (snd (handle_message t now data c)))
              = [(ascii ''raw'', PStr packet),
                 (ascii ''unknown'',
                  PDict [(ascii ''type'', VStr code),
                         (ascii ''parts'', VList (split packet ChatDelimiter_SEPARATOR)),
                         (ascii ''time'', VStr t)])])"
proof -
  from raw_returns [OF assms(3)] obtain a0
    where a0: "emit c SoopChatEvent_RAW (PStr packet) = (None, a0)"
      and e0: "emitted a0 = [(ascii ''raw'', PStr packet)]" by blast
  have 1: "code = ascii ''0001'' \<Longrightarrow>
            kinds (snd (snd (handle_message t now data c))) = [ascii ''raw'', ascii ''connect'']"
    using handle_message_connect(2) [OF assms(1) a0, of t now] assms(2) e0
    by (simp add: kinds_def ChatType_CONNECT_def SoopChatEvent_CONNECT_def)
  have 2: "code = ascii ''0002'' \<Longrightarrow>
            kinds (snd (snd (handle_message t now data c))) = [ascii ''raw'', ascii ''enter_chat_room'']"
    using handle_message_enter(1) [OF assms(1) a0, of t now] assms(2) e0
    by (simp add: kinds_def ChatType_ENTER_CHAT_ROOM_def SoopChatEvent_ENTER_CHAT_ROOM_def)
  have 5: "code = ascii ''0005'' \<Longrightarrow>
            kinds (snd (snd (handle_message t now data c))) = [ascii ''raw'', ascii ''chat'']"
    using assms(1,2) a0 e0
    by (simp add: handle_message_def kinds_def ChatType_defs SoopChatEvent_defs)
  have 18: "code = ascii ''0018'' \<Longrightarrow>
            kinds (snd (snd (handle_message t now data c))) = [ascii ''raw'', ascii ''text_donation'']"
    using assms(1,2) a0 e0
    by (simp add: handle_message_def kinds_def ChatType_defs SoopChatEvent_defs)
  have 87: "code = ascii ''0087'' \<Longrightarrow>
            kinds (snd (snd (handle_message t now data c))) = [ascii ''raw'', ascii ''ad_balloon_donation'']"
    using assms(1,2) a0 e0
    by (simp add: handle_message_def kinds_def ChatType_defs SoopChatEvent_defs)
  have 104: "code = ascii ''0104'' \<Longrightarrow>
            kinds (snd (snd (handle_message t now data c))) = [ascii ''raw'', ascii ''notification'']"
    using assms(1,2) a0 e0
    by (simp add: handle_message_def kinds_def ChatType_defs SoopChatEvent_defs)
  have 105: "code = ascii ''0105'' \<Longrightarrow>
            kinds (snd (snd (handle_message t now data c))) = [ascii ''raw'', ascii ''video_donation'']"
    using assms(1,2) a0 e0
    by (simp add: handle_message_def kinds_def ChatType_defs SoopChatEvent_defs)
  have 109: "code = ascii ''0109'' \<Longrightarrow>
            kinds (snd (snd (handle_message t now data c))) = [ascii ''raw'', ascii ''emoticon'']"
    using assms(1,2) a0 e0
    by (simp add: handle_message_def kinds_def ChatType_defs SoopChatEvent_defs)
  have 7: "code = ascii ''0007'' \<Longrightarrow>
            kinds (snd (snd (handle_message t now data c)))
              = (if connected c then [ascii ''raw'', ascii ''disconnect''] else [ascii ''raw''])"
    using assms(1,2) a0 e0
    by (simp add: handle_message_def kinds_def ChatType_defs SoopChatEvent_defs case_prod_beta
          emitted_disconnect)
  have u: "code = ascii ''0012'' \<or>
          code \<notin> {ascii ''0001'', ascii ''0002'', ascii ''0004'', ascii ''0005'', ascii ''0007'',
                    ascii ''0012'', ascii ''0018'', ascii ''0087'', ascii ''0093'', ascii ''0104'',
                    ascii ''0105'', ascii ''0109'', ascii ''0127''} \<Longrightarrow>
            emitted (snd (snd (handle_message t now data c)))
              = [(ascii ''raw'', PStr packet),
                 (ascii ''unknown'',
                  PDict [(ascii ''type'', VStr code),
                         (ascii ''parts'', VList (split packet ChatDelimiter_SEPARATOR)),
                         (ascii ''time'', VStr t)])]"
    using assms(1,2) a0 e0
    by (auto simp add: handle_message_def ChatType_defs SoopChatEvent_defs case_prod_beta)
  from 1 2 5 18 87 104 105 109 7 u show ?thesis by blast
qed

theorem handle_message_kind_mapping_witness:
  "decode_data (Text (ChatDelimiter_STARTER @ ascii ''000500000100'' @ ChatDelimiter_SEPARATOR))
     = Inr (ChatDelimiter_STARTER @ ascii ''000500000100'' @ ChatDelimiter_SEPARATOR)
   \<and> parse_message_type (ChatDelimiter_STARTER @ ascii ''000500000100'' @ ChatDelimiter_SEPARATOR)
       = Inr (ascii ''0005'')
   \<and> handlers (init (ascii ''room'')) (ascii ''raw'') = None
   \<and> kinds (snd (snd (handle_message (ascii ''t0'') (ascii ''t1'')
               (Text (ChatDelimiter_STARTER @ ascii ''000500000100'' @ ChatDelimiter_SEPARATOR))
               (init (ascii ''room'')))))
       = [ascii ''raw'', ascii ''chat'']"
proof -
  let ?p = "ChatDelimiter_STARTER @ ascii ''000500000100'' @ ChatDelimiter_SEPARATOR"
  have h1: "decode_data (Text ?p) = Inr ?p" by (simp add: decode_data_def)
  have h2: "parse_message_type ?p = Inr (ascii ''0005'')"
    by (simp add: parse_message_type_def startswith_def slice_def ChatDelimiter_STARTER_def ascii_Cons)
  have h3: "\<forall>hs. handlers (init (ascii ''room'')) (ascii ''raw'') = Some hs
              \<longrightarrow> (\<forall>g\<in>set hs. outcome g (PStr ?p) = None)"
    by (simp add: init_def)
  from handle_message_kind_mapping [OF h1 h2 h3, of "ascii ''t0''" "ascii ''t1''"] h1 h2
  show ?thesis by (simp add: init_def)
qed

text \<open>
  The claim as it is written fails on a frame of type 0012, which is emitted as
  \<open>unknown\<close> (the client has no event kind \<open>enter_info\<close>), and on a frame of type 0007
  that reaches a client that is not connected, which emits nothing after \<open>raw\<close>.
\<close>

theorem handle_message_kind_mapping_counterexample:
  "kinds (snd (snd (handle_message (ascii ''t0'') (ascii ''t1'')
            (Text (ChatDelimiter_STARTER @ ascii ''001200000000'')) (init (ascii ''room'')))))
     = [ascii ''raw'', ascii ''unknown'']
   \<and> kinds (snd (snd (handle_message (ascii ''t0'') (ascii ''t1'')
            (Text (ChatDelimiter_STARTER @ ascii ''000700000000'')) (init (ascii ''room'')))))
     = [ascii ''raw'']"
  by (simp add: handle_message_def decode_data_def emit_def init_def parse_message_type_def
        startswith_def slice_def ChatDelimiter_STARTER_def ChatType_defs SoopChatEvent_defs
        kinds_def disconnect_def ascii_Cons)

section \<open>A message that fails the validation of the header\<close>

text \<open>
  The packet of a message is the message itself when it is a string, and its UTF-8
  decoding when it is bytes. Bytes that are not UTF-8 have no packet: the decoder's
  exception leaves the handler before anything is emitted.
\<close>

lemma handle_message_undecodable:
  "decode_data data = Inl e \<Longrightarrow> handle_message t now data c = (Some e, c, [])"
  by (simp add: handle_message_def)

text \<open>
  Claim C3, as the code has it. Take a message that has a packet: a string, or bytes
  that decode as UTF-8. When the packet does not begin with the starter or has fewer
  than 5 characters, it is emitted as \<open>raw\<close> and as nothing else, no field of the
  client changes, and the handler raises only what a subscriber of \<open>raw\<close> raises: it
  returns normally when none of them raises. Bytes that do not decode are not covered.
\<close>

theorem handle_message_invalid_header:
  assumes "decode_data data = Inr packet"
    and "\<not> (\<exists>rest. packet = ChatDelimiter_STARTER @ rest) \<or> length packet < 5"
  shows "fst (snd (handle_message t now data c)) = c
     \<and> emitted (snd (snd (handle_message t now data c))) = [(ascii ''raw'', PStr packet)]
     \<and> fst (handle_message t now data c) = fst (emit c (ascii ''raw'') (PStr packet))
     \<and> ((\<forall>hs. handlers c (ascii ''raw'') = Some hs \<longrightarrow> (\<forall>g\<in>set hs. outcome g (PStr packet) = None))
          \<longrightarrow> fst (handle_message t now data c) = None)"
proof -
  have "\<exists>e. parse_message_type packet = Inl e"
  proof (cases "startswith packet ChatDelimiter_STARTER")
    case True
    with assms(2) have "length packet < 5" by (auto simp: startswith_iff)
    with True show ?thesis by (simp add: parse_message_type_def)
  next
    case False
    then show ?thesis by (simp add: parse_message_type_def)
  qed
  then obtain e where e: "parse_message_type packet = Inl e" ..
  obtain r a0 where a0: "emit c SoopChatEvent_RAW (PStr packet) = (r, a0)"
    by (cases "emit c SoopChatEvent_RAW (PStr packet)")
  from handle_message_invalid [OF assms(1) a0 e]
  have hm: "handle_message t now data c = (r, c, a0)" .
  from emitted_emit_eq [OF a0] have "emitted a0 = [(ascii ''raw'', PStr packet)]"
    by (simp add: SoopChatEvent_RAW_def)
  moreover from a0 have "r = fst (emit c (ascii ''raw'') (PStr packet))"
    by (simp add: SoopChatEvent_RAW_def)
  moreover have "(\<forall>hs. handlers c (ascii ''raw'') = Some hs \<longrightarrow> (\<forall>g\<in>set hs. outcome g (PStr packet) = None))
          \<longrightarrow> r = None"
    using raw_returns [of c packet] a0 by auto
  ultimately show ?thesis using hm by simp
qed

theorem handle_message_invalid_header_witness:
  "decode_data (Text (ascii ''hello'')) = Inr (ascii ''hello'')
   \<and> length (ascii ''hello'') = 5
   \<and> take 2 (ascii ''hello'') = ascii ''he''
   \<and> handle_message (ascii ''t0'') (ascii ''t1'') (Text (ascii ''hello'')) (init (ascii ''room''))
       = (None, init (ascii ''room''), [Emit (ascii ''raw'') (PStr (ascii ''hello''))])"
proof -
  have h1: "decode_data (Text (ascii ''hello'')) = Inr (ascii ''hello'')" by (simp add: decode_data_def)
  have h2: "\<not> (\<exists>rest. ascii ''hello'' = ChatDelimiter_STARTER @ rest) \<or> length (ascii ''hello'') < 5"
    by (simp add: ChatDelimiter_STARTER_def ascii_Cons)
  have e: "emit (init (ascii ''room'')) (ascii ''raw'') (PStr (ascii ''hello''))
             = (None, [Emit (ascii ''raw'') (PStr (ascii ''hello''))])"
    by (simp add: emit_def init_def)
  obtain r c' acts where hm: "handle_message (ascii ''t0'') (ascii ''t1'') (Text (ascii ''hello''))
      (init (ascii ''room'')) = (r, c', acts)"
    by (cases "handle_message (ascii ''t0'') (ascii ''t1'') (Text (ascii ''hello'')) (init (ascii ''room''))")
      auto
  from handle_message_invalid_header [OF h1 h2, of "ascii ''t0''" "ascii ''t1''" "init (ascii ''room'')"] e hm
  have "r = None" "c' = init (ascii ''room'')" "emitted acts = [(ascii ''raw'', PStr (ascii ''hello''))]"
    by simp_all
  moreover have "acts = [Emit (ascii ''raw'') (PStr (ascii ''hello''))]"
    using hm h1 e by (simp add: handle_message_def parse_message_type_def startswith_def
        ChatDelimiter_STARTER_def SoopChatEvent_RAW_def ascii_Cons)
  ultimately show ?thesis using hm h1 by (simp add: ascii_Cons)
qed

text \<open>
  The claim as it is written fails twice: a message without the starter is emitted as
  \<open>raw\<close>; and a message that begins with the starter and is shorter than the header
  of 14 characters is handled as a frame, here the acknowledgement 0001, which sets
  the connected flag of the client.
\<close>

theorem handle_message_invalid_header_counterexample:
  "kinds (snd (snd (handle_message (ascii ''t0'') (ascii ''t1'') (Text (ascii ''hello''))
            (init (ascii ''room''))))) = [ascii ''raw'']
   \<and> length (ChatDelimiter_STARTER @ ascii ''0001'') < 14
   \<and> connected (fst (snd (handle_message (ascii ''t0'') (ascii ''t1'')
            (Text (ChatDelimiter_STARTER @ ascii ''0001'')) (init (ascii ''room'')))))
   \<and> \<not> connected (init (ascii ''room''))"
  by (simp add: handle_message_def decode_data_def emit_def init_def parse_message_type_def
        startswith_def slice_def ChatDelimiter_STARTER_def ChatType_defs SoopChatEvent_defs
        kinds_def get_join_packet_def ascii_Cons)


section \<open>Disconnecting before and after the acknowledgement\<close>

lemma connected_only_by_ack:
  assumes "\<not> connected c" and "connected (fst (snd (handle_message t now data c)))"
  shows "\<exists>p. decode_data data = Inr p \<and> parse_message_type p = Inr (ascii ''0001'')"
proof (cases "decode_data data")
  case (Inl e)
  with assms show ?thesis by (simp add: handle_message_def)
next
  case (Inr p)
  obtain r a0 where a0: "emit c SoopChatEvent_RAW (PStr p) = (r, a0)"
    by (cases "emit c SoopChatEvent_RAW (PStr p)")
  show ?thesis
  proof (cases r)
    case (Some e)
    with handle_message_raw_raises [OF Inr, of c e a0 t now] a0 assms show ?thesis by simp
  next
    case None
    show ?thesis
    proof (cases "parse_message_type p")
      case (Inl e)
      from handle_message_invalid [OF Inr a0 Inl, of t now] assms show ?thesis by simp
    next
      case code: (Inr code)
      show ?thesis
      proof (cases "code = ChatType_CONNECT")
        case True
        with Inr code show ?thesis by (simp add: ChatType_CONNECT_def)
      next
        case False
        have "connected (fst (snd (handle_message t now data c))) = connected c"
          using Inr a0 None code False assms(1)
          by (simp add: handle_message_def case_prod_beta disconnect_not_connected
                split: option.splits)
        with assms show ?thesis by simp
      qed
    qed
  qed
qed

text \<open>
  Claim C10. While the connected flag is false, \<open>disconnect\<close> returns at once: no
  event, no cancellation, no close, the client as it was. A new client has the flag
  false, and only the handling of an acknowledgement 0001 makes it true. With the flag
  true, and no subscriber of \<open>disconnect\<close> raising, \<open>disconnect\<close> emits the
  \<open>disconnect\<close> event, cancels the keepalive task and closes the socket if there are
  any, and clears the two fields and the flag.
\<close>

theorem disconnect_only_after_ack:
  "(\<not> connected c \<longrightarrow> disconnect now c = (None, c, []))
   \<and> \<not> connected (init sid)
   \<and> (\<not> connected c \<and> connected (fst (snd (handle_message t now' data c))) \<longrightarrow>
        (\<exists>p. decode_data data = Inr p \<and> parse_message_type p = Inr (ascii ''0001'')))
   \<and> (decode_data data = Inr p \<and> parse_message_type p = Inr (ascii ''0001'')
        \<and> fst (emit c (ascii ''raw'') (PStr p)) = None \<longrightarrow>
        connected (fst (snd (handle_message t now' data c))))
   \<and> (connected c
        \<and> fst (emit c (ascii ''disconnect'')
                 (PDict [(ascii ''streamer_id'', VStr (streamer_id c)), (ascii ''time'', VStr now)])) = None \<longrightarrow>
        fst (disconnect now c) = None
        \<and> fst (snd (disconnect now c)) = c\<lparr>ping_task := None, ws := None, connected := False\<rparr>
        \<and> emitted (snd (snd (disconnect now c)))
            = [(ascii ''disconnect'',
                PDict [(ascii ''streamer_id'', VStr (streamer_id c)), (ascii ''time'', VStr now)])]
        \<and> (ping_task c \<noteq> None \<longrightarrow> TaskCancel \<in> set (snd (snd (disconnect now c))))
        \<and> (ws c \<noteq> None \<longrightarrow> WsClose \<in> set (snd (snd (disconnect now c)))))"
proof (intro conjI impI)
  show "\<not> connected c \<Longrightarrow> disconnect now c = (None, c, [])"
    by (rule disconnect_not_connected)
  show "\<not> connected (init sid)" by (simp add: init_def)
  show "\<not> connected c \<and> connected (fst (snd (handle_message t now' data c))) \<Longrightarrow>
        \<exists>p. decode_data data = Inr p \<and> parse_message_type p = Inr (ascii ''0001'')"
    using connected_only_by_ack [of c t now' data] by blast
next
  assume a: "decode_data data = Inr p \<and> parse_message_type p = Inr (ascii ''0001'')
        \<and> fst (emit c (ascii ''raw'') (PStr p)) = None"
  then obtain a0 where "emit c SoopChatEvent_RAW (PStr p) = (None, a0)"
    by (cases "emit c SoopChatEvent_RAW (PStr p)") (simp add: SoopChatEvent_RAW_def)
  from handle_message_connect(1) [OF _ this, of data t now'] a
  show "connected (fst (snd (handle_message t now' data c)))"
    by (simp add: ChatType_CONNECT_def)
next
  assume a: "connected c
        \<and> fst (emit c (ascii ''disconnect'')
                 (PDict [(ascii ''streamer_id'', VStr (streamer_id c)), (ascii ''time'', VStr now)])) = None"
  then obtain a0 where a0: "emit c SoopChatEvent_DISCONNECT
           (PDict [(ascii ''streamer_id'', VStr (streamer_id c)), (ascii ''time'', VStr now)]) = (None, a0)"
    by (cases "emit c SoopChatEvent_DISCONNECT
           (PDict [(ascii ''streamer_id'', VStr (streamer_id c)), (ascii ''time'', VStr now)])")
       (simp add: SoopChatEvent_DISCONNECT_def)
  from a have c: "connected c" by simp
  note d = disconnect_releases [OF c a0]
  show "fst (disconnect now c) = None" by (simp add: d)
  show "fst (snd (disconnect now c)) = c\<lparr>ping_task := None, ws := None, connected := False\<rparr>"
    by (simp add: d)
  show "emitted (snd (snd (disconnect now c)))
            = [(ascii ''disconnect'',
                PDict [(ascii ''streamer_id'', VStr (streamer_id c)), (ascii ''time'', VStr now)])]"
    using c by (simp add: emitted_disconnect SoopChatEvent_DISCONNECT_def)
  show "ping_task c \<noteq> None \<Longrightarrow> TaskCancel \<in> set (snd (snd (disconnect now c)))"
    by (auto simp: d)
  show "ws c \<noteq> None \<Longrightarrow> WsClose \<in> set (snd (snd (disconnect now c)))"
    by (auto simp: d)
qed

theorem disconnect_only_after_ack_witness:
  "\<not> connected (init (ascii ''room''))
   \<and> disconnect (ascii ''t9'') (init (ascii ''room'')) = (None, init (ascii ''room''), [])
   \<and> connected ((init (ascii ''room''))\<lparr>ws := Some (WebSocket True), ping_task := Some PingLoop,
                                           connected := True\<rparr>)
   \<and> disconnect (ascii ''t9'')
        ((init (ascii ''room''))\<lparr>ws := Some (WebSocket True), ping_task := Some PingLoop,
                                  connected := True\<rparr>)
       = (None, init (ascii ''room''),
          [Emit (ascii ''disconnect'')
             (PDict [(ascii ''streamer_id'', VStr (ascii ''room'')), (ascii ''time'', VStr (ascii ''t9''))]),
           TaskCancel, WsClose])"
proof -
  let ?c = "(init (ascii ''room''))\<lparr>ws := Some (WebSocket True), ping_task := Some PingLoop,
                                      connected := True\<rparr>"
  have n: "\<not> connected (init (ascii ''room''))" by (simp add: init_def)
  from disconnect_only_after_ack [of "init (ascii ''room'')" "ascii ''t9''"] n
  have 1: "disconnect (ascii ''t9'') (init (ascii ''room'')) = (None, init (ascii ''room''), [])"
    by blast
  have c: "connected ?c" by simp
  have e: "emit ?c (ascii ''disconnect'')
             (PDict [(ascii ''streamer_id'', VStr (streamer_id ?c)), (ascii ''time'', VStr (ascii ''t9''))])
           = (None, [Emit (ascii ''disconnect'')
                (PDict [(ascii ''streamer_id'', VStr (ascii ''room'')), (ascii ''time'', VStr (ascii ''t9''))])])"
    by (simp add: emit_def init_def)
  from disconnect_only_after_ack [of ?c "ascii ''t9''"] c e
  have "fst (disconnect (ascii ''t9'') ?c) = None"
    and "fst (snd (disconnect (ascii ''t9'') ?c)) = ?c\<lparr>ping_task := None, ws := None, connected := False\<rparr>"
    by simp_all
  moreover have "snd (snd (disconnect (ascii ''t9'') ?c))
       = [Emit (ascii ''disconnect'')
             (PDict [(ascii ''streamer_id'', VStr (ascii ''room'')), (ascii ''time'', VStr (ascii ''t9''))]),
           TaskCancel, WsClose]"
    using e by (simp add: disconnect_def SoopChatEvent_DISCONNECT_def init_def)
  ultimately have 2: "disconnect (ascii ''t9'') ?c
       = (None, init (ascii ''room''),
          [Emit (ascii ''disconnect'')
             (PDict [(ascii ''streamer_id'', VStr (ascii ''room'')), (ascii ''time'', VStr (ascii ''t9''))]),
           TaskCancel, WsClose])"
    by (cases "disconnect (ascii ''t9'') ?c") (simp add: init_def)
  from n 1 c 2 show ?thesis by blast
qed


section \<open>Resolution and the handshake\<close>

text \<open>
  Claim C8. When the resolver answers a descriptor with \<open>RESULT\<close> equal to 0, \<open>connect\<close>
  raises the "not broadcasting" exception after the HTTP request alone: no handshake
  and no frame. When \<open>RESULT\<close> is not 0 the next action is the WebSocket handshake, to
  the address of the descriptor.
\<close>

theorem connect_not_live:
  "(\<not> connected c \<and> resolved env = Inr d \<and> result d = 0 \<longrightarrow>
      connect ucd env c = (Some NotBroadcasting, c\<lparr>live_detail := Some d\<rparr>, [HttpPost])
      \<and> (\<forall>u. WsConnect u \<notin> set (snd (snd (connect ucd env c)))
             \<and> WsSend u \<notin> set (snd (snd (connect ucd env c)))))
   \<and> (\<not> connected c \<and> resolved env = Inr d \<and> result d \<noteq> 0 \<longrightarrow>
      (\<exists>rest. snd (snd (connect ucd env c))
         = HttpPost # WsConnect (ascii ''wss://'' @ lower ucd (chat_domain d) @ ascii '':''
                                  @ str_int (chat_port d + 1) @ ascii ''/Websocket/'' @ streamer_id c)
             # rest))"
  by (simp add: connect_def make_chat_url_def Let_def case_prod_beta
        split: sum.splits option.splits)

theorem connect_not_live_witness:
  "\<not> connected (init (ascii ''room''))
   \<and> resolved not_live_session = Inr (happy_detail\<lparr>result := 0\<rparr>)
   \<and> result (happy_detail\<lparr>result := 0\<rparr>) = 0
   \<and> connect (\<lambda>s. s) not_live_session (init (ascii ''room''))
       = (Some NotBroadcasting,
          (init (ascii ''room''))\<lparr>live_detail := Some (happy_detail\<lparr>result := 0\<rparr>)\<rparr>, [HttpPost])
   \<and> resolved scripted_session = Inr happy_detail
   \<and> result happy_detail = 1
   \<and> (\<exists>rest. snd (snd (connect (\<lambda>s. s) scripted_session (init (ascii ''room''))))
         = HttpPost # WsConnect (ascii ''wss://chat-x:5001/Websocket/room'') # rest)"
  using connect_not_live [of "init (ascii ''room'')" not_live_session "happy_detail\<lparr>result := 0\<rparr>" "\<lambda>s. s"]
    connect_not_live [of "init (ascii ''room'')" scripted_session happy_detail "\<lambda>s. s"]
  by (simp add: not_live_session_def scripted_session_def happy_detail_def init_def
        str_int_5001 lower_Chat_X ascii_Cons)

section \<open>The order of the events\<close>

lemma kinds_append [simp]: "kinds (a @ b) = kinds a @ kinds b"
  by (simp add: kinds_def)













end
